theory Spec2Isabelle
  imports Complex_Main
begin

section \<open>The spread trading engine of enhanced\_futures\_trader.py\<close>

text \<open>
  A shallow embedding of class \<open>GateFuturesTrader\<close>. The object's fields are a record that
  every method takes and returns. Conventions of the embedding:

  \<^item> A Python \<open>Decimal\<close> (and the floats of a trade record and of the clock) is a finite
    number, modelled as an exact rational \<open>rat\<close>; the special values NaN and Infinity and
    the rounding of a result to the 28 significant digits of the default context are
    outside the model. Every concrete input used below has few digits, so that the
    Decimal arithmetic of the source is exact on it.
  \<^item> The dictionaries keyed by contract are maps \<open>string \<rightharpoonup> _\<close>.
  \<^item> Every method body is wrapped in \<open>try/except Exception\<close>; each exception the body
    can raise is a branch of the model that returns what the handler returns.
  \<^item> \<open>ws.send\<close> is the only call whose failure depends on the outside world: whether the
    send of an order succeeds is an input (\<open>buy_send_ok\<close>, \<open>sell_send_ok\<close>), as is the clock.
    The frames handed to \<open>ws.send\<close> are collected in the field \<open>sent\<close>.
  \<^item> \<open>hmac.new(key, msg, hashlib.sha512).hexdigest()\<close> is a library function; it is the
    parameter \<open>hmac_hex\<close> (key first, then message) of every function that signs.
  \<^item> The socket exists (\<open>self.ws\<close> is set by \<open>start_trading\<close> before any callback runs),
    and the clock is read once for each ticker object that is processed and once in
    \<open>on_open\<close>.
  \<^item> The log lines are not modelled; the reason strings returned by the two decision
    functions are the constructors of \<open>reason\<close>.
\<close>

subsection \<open>Data\<close>

text \<open>An entry of \<open>self.current_position\<close>: keys \<open>size\<close>, \<open>entry_price\<close>, \<open>entry_time\<close>.\<close>

record position =
  size_pos :: int
  entry_price :: rat
  entry_time :: rat

text \<open>An entry of \<open>self.tickers\<close>, as \<open>on_ticker_message\<close> stores it (all seven keys).\<close>

record ticker =
  last_tk :: rat
  bid :: rat
  ask :: rat
  volume :: rat
  change_24h :: rat
  mark_price :: rat
  index_price :: rat

text \<open>An element of \<open>self.completed_trades\<close>.\<close>

record trade_record =
  tr_contract :: string
  tr_entry_price :: rat
  tr_exit_price :: rat
  tr_size :: int
  tr_profit :: rat
  tr_profit_pct :: rat
  tr_entry_time :: rat
  tr_exit_time :: rat
  tr_duration :: rat

text \<open>The order payload of \<open>place_futures_order\<close>; \<open>close\<close> and \<open>reduce_only\<close> are keys that
  are present only on a closing order.\<close>

record order =
  o_contract :: string
  o_size :: int
  o_price :: int
  o_text :: string
  o_tif :: string
  o_close :: "bool option"
  o_reduce_only :: "bool option"

datatype payload = Contract_List "string list" | Order order

record auth =
  auth_method :: string
  KEY :: string
  SIGN :: string

text \<open>The envelope that \<open>_request\<close> builds; the key \<open>auth\<close> is present only when
  \<open>auth_required\<close>.\<close>

record request_data =
  rq_time :: int
  rq_channel :: string
  rq_event :: "string option"
  rq_payload :: "payload option"
  rq_auth :: "auth option"

text \<open>The fields of the trader object that the engine reads and writes.\<close>

record trader =
  api_key :: string
  api_secret :: string
  contracts :: "string list"
  trade_amount :: int
  max_trades :: int
  spread_threshold :: rat
  current_position :: "string \<rightharpoonup> position"
  trade_count :: int
  completed_trades :: "trade_record list"
  is_running :: bool
  event_set :: bool
  ws_closed :: bool
  tickers :: "string \<rightharpoonup> ticker"
  sent :: "request_data list"

text \<open>The configuration file: \<open>api.key\<close>, \<open>api.secret\<close> and the four keys of \<open>trading\<close>.\<close>

record config =
  cfg_key :: string
  cfg_secret :: string
  cfg_contracts :: "string list"
  cfg_amount :: int
  cfg_max_trades :: int
  cfg_spread_threshold :: rat

text \<open>What the outside world decides while one ticker is processed: the clock, and whether
  \<open>ws.send\<close> of the buy order and of the sell order returns (\<open>True\<close>) or raises.\<close>

record env =
  now :: rat
  buy_send_ok :: bool
  sell_send_ok :: bool

text \<open>A field of an inbound ticker object: absent, a number, or a value that
  \<open>Decimal(str(_))\<close> rejects.\<close>

datatype field = Absent | Num rat | Malformed

record ticker_msg =
  t_contract :: "string option"
  t_last :: field
  t_bid :: field
  t_ask :: field
  t_volume_24h :: field
  t_change_percentage :: field
  t_mark_price :: field
  t_index_price :: field

text \<open>The payload of a message of channel \<open>futures.tickers\<close>: one object or an array.
  Each ticker object comes with what the outside world decides while it is processed.\<close>

datatype ticker_data = Single "ticker_msg \<times> env" | Array "(ticker_msg \<times> env) list"

datatype reason =
    Already_Holding
  | Max_Trades_Reached
  | No_Price_Data
  | Invalid_Ask
  | Can_Buy rat
  | No_Position
  | Invalid_Bid
  | Can_Sell rat rat
  | Waiting rat rat

subsection \<open>Construction\<close>

definition init :: "config \<Rightarrow> trader" where
  "init cfg =
     \<lparr> api_key = cfg_key cfg, api_secret = cfg_secret cfg,
       contracts = cfg_contracts cfg, trade_amount = cfg_amount cfg,
       max_trades = cfg_max_trades cfg, spread_threshold = cfg_spread_threshold cfg,
       current_position = Map.empty, trade_count = 0, completed_trades = [],
       is_running = False, event_set = False, ws_closed = False,
       tickers = Map.empty, sent = [] \<rparr>"

subsection \<open>Signing and requests\<close>

text \<open>Python's \<open>str\<close> of an integer, and of the event (\<open>None\<close> prints as \<open>None\<close>).\<close>

function str_nat :: "nat \<Rightarrow> string" where
  "str_nat n =
     (if n < 10 then [''0123456789'' ! n]
      else str_nat (n div 10) @ [''0123456789'' ! (n mod 10)])"
  by pat_completeness auto
termination
  by (relation "measure id") auto

definition str_int :: "int \<Rightarrow> string" where
  "str_int i = (if i < 0 then CHR ''-'' # str_nat (nat (- i)) else str_nat (nat i))"

definition str_event :: "string option \<Rightarrow> string" where
  "str_event ev = (case ev of None \<Rightarrow> ''None'' | Some e \<Rightarrow> e)"

text \<open>\<open>int(time.time())\<close> truncates towards zero.\<close>

definition py_int :: "rat \<Rightarrow> int" where
  "py_int r = (if 0 \<le> r then \<lfloor>r\<rfloor> else \<lceil>r\<rceil>)"

definition get_sign :: "(string \<Rightarrow> string \<Rightarrow> string) \<Rightarrow> trader \<Rightarrow> string \<Rightarrow> string" where
  "get_sign hmac_hex s message = hmac_hex (api_secret s) message"

text \<open>The dictionary \<open>data\<close> of \<open>_request\<close>, built from \<open>current_time = int(time.time())\<close>.\<close>

definition request_data ::
  "(string \<Rightarrow> string \<Rightarrow> string) \<Rightarrow> trader \<Rightarrow> string \<Rightarrow> string option \<Rightarrow> payload option \<Rightarrow> bool
     \<Rightarrow> int \<Rightarrow> request_data" where
  "request_data hmac_hex s channel ev pl auth_required current_time =
     \<lparr> rq_time = current_time, rq_channel = channel, rq_event = ev, rq_payload = pl,
       rq_auth =
         (if auth_required then
            Some \<lparr> auth_method = ''api_key'', KEY = api_key s,
                   SIGN = get_sign hmac_hex s
                     (''channel='' @ channel @ ''&event='' @ str_event ev @ ''&time='' @
                      str_int current_time) \<rparr>
          else None) \<rparr>"

text \<open>\<open>_request\<close>: \<open>None\<close> when \<open>ws.send\<close> raises, otherwise the trader with the frame sent.\<close>

definition request ::
  "(string \<Rightarrow> string \<Rightarrow> string) \<Rightarrow> trader \<Rightarrow> string \<Rightarrow> string option \<Rightarrow> payload option \<Rightarrow> bool
     \<Rightarrow> rat \<Rightarrow> bool \<Rightarrow> trader option" where
  "request hmac_hex s channel ev pl auth_required clock send_ok =
     (if send_ok then
        Some (s\<lparr>sent := sent s @
                [request_data hmac_hex s channel ev pl auth_required (py_int clock)]\<rparr>)
      else None)"

subsection \<open>The spread rule\<close>

definition calculate_spread_percentage :: "rat \<Rightarrow> rat \<Rightarrow> rat" where
  "calculate_spread_percentage current_price entry_price' =
     (if entry_price' \<le> 0 then 1
      else (\<bar>current_price - entry_price'\<bar> / entry_price') * 100)"

definition should_place_buy_order :: "trader \<Rightarrow> string \<Rightarrow> bool \<times> reason" where
  "should_place_buy_order s contract =
     (if (case current_position s contract of None \<Rightarrow> False | Some p \<Rightarrow> 0 < size_pos p)
        then (False, Already_Holding)
      else if max_trades s \<le> trade_count s then (False, Max_Trades_Reached)
      else (case tickers s contract of
              None \<Rightarrow> (False, No_Price_Data)
            | Some t \<Rightarrow>
                if ask t \<le> 0 then (False, Invalid_Ask) else (True, Can_Buy (ask t))))"

definition should_place_sell_order :: "trader \<Rightarrow> string \<Rightarrow> bool \<times> reason" where
  "should_place_sell_order s contract =
     (case current_position s contract of
        None \<Rightarrow> (False, No_Position)
      | Some p \<Rightarrow>
          if size_pos p \<le> 0 then (False, No_Position)
          else (case tickers s contract of
                  None \<Rightarrow> (False, No_Price_Data)
                | Some t \<Rightarrow>
                    if bid t \<le> 0 then (False, Invalid_Bid)
                    else
                      (let spread_pct = calculate_spread_percentage (bid t) (entry_price p)
                       in if spread_pct \<le> spread_threshold s * 100
                          then (True, Can_Sell spread_pct (spread_threshold s * 100))
                          else (False, Waiting spread_pct (spread_threshold s * 100)))))"

subsection \<open>Orders\<close>

definition place_futures_order ::
  "(string \<Rightarrow> string \<Rightarrow> string) \<Rightarrow> trader \<Rightarrow> string \<Rightarrow> int \<Rightarrow> int \<Rightarrow> string \<Rightarrow> bool
     \<Rightarrow> rat \<Rightarrow> bool \<Rightarrow> bool \<times> trader" where
  "place_futures_order hmac_hex s contract sz price order_type close clock send_ok =
     (let pl = \<lparr> o_contract = contract, o_size = sz, o_price = price,
                  o_text = ''auto_trade_'' @ str_int (py_int clock), o_tif = order_type,
                  o_close = (if close then Some True else None),
                  o_reduce_only = (if close then Some True else None) \<rparr>
      in case request hmac_hex s ''futures.orders'' None (Some (Order pl)) True clock send_ok of
           None \<Rightarrow> (False, s)
         | Some s' \<Rightarrow> (True, s'))"

text \<open>\<open>execute_buy_order\<close>: the order is placed first; the position is recorded at the
  cached \<open>last\<close> price when that is positive. A contract without cached ticker raises
  \<open>KeyError\<close>, which the handler turns into \<open>False\<close>.\<close>

definition execute_buy_order ::
  "(string \<Rightarrow> string \<Rightarrow> string) \<Rightarrow> trader \<Rightarrow> string \<Rightarrow> env \<Rightarrow> bool \<times> trader" where
  "execute_buy_order hmac_hex s contract e =
     (let (placed, s1) =
            place_futures_order hmac_hex s contract (trade_amount s) 0 ''IOC'' False
              (now e) (buy_send_ok e)
      in if placed then
           (case tickers s1 contract of
              None \<Rightarrow> (False, s1)
            | Some t \<Rightarrow>
                (let current_price = last_tk t
                 in if 0 < current_price then
                      (True, s1\<lparr>current_position := (current_position s1)(contract \<mapsto>
                                 \<lparr> size_pos = trade_amount s1, entry_price = current_price,
                                   entry_time = now e \<rparr>)\<rparr>)
                    else (False, s1)))
         else (False, s1))"

definition execute_sell_order ::
  "(string \<Rightarrow> string \<Rightarrow> string) \<Rightarrow> trader \<Rightarrow> string \<Rightarrow> env \<Rightarrow> bool \<times> trader" where
  "execute_sell_order hmac_hex s contract e =
     (case current_position s contract of
        None \<Rightarrow> (False, s)
      | Some p \<Rightarrow>
          (case tickers s contract of
             None \<Rightarrow> (False, s)
           | Some t \<Rightarrow>
               (let current_price = bid t
                in if current_price \<le> 0 then (False, s)
                   else
                     (let profit = (current_price - entry_price p) * of_int (size_pos p);
                          profit_pct = calculate_spread_percentage current_price (entry_price p);
                          (placed, s1) =
                            place_futures_order hmac_hex s contract (- size_pos p) 0 ''IOC'' True
                              (now e) (sell_send_ok e)
                      in if placed then
                           (True,
                            s1\<lparr>completed_trades := completed_trades s1 @
                                  [\<lparr> tr_contract = contract, tr_entry_price = entry_price p,
                                     tr_exit_price = current_price, tr_size = size_pos p,
                                     tr_profit = profit, tr_profit_pct = profit_pct,
                                     tr_entry_time = entry_time p, tr_exit_time = now e,
                                     tr_duration = now e - entry_time p \<rparr>],
                               trade_count := trade_count s1 + 1,
                               current_position := (current_position s1)(contract := None)\<rparr>)
                         else (False, s1)))))"

subsection \<open>The session\<close>

definition stop_trading :: "trader \<Rightarrow> trader" where
  "stop_trading s = s\<lparr>is_running := False, event_set := True, ws_closed := True\<rparr>"

definition on_close :: "trader \<Rightarrow> trader" where
  "on_close s = s\<lparr>is_running := False\<rparr>"

text \<open>\<open>on_open\<close> subscribes to the tickers of every contract (no authentication) and to
  the order and user trade channels (authenticated), then sets \<open>is_running\<close>. A send that
  raises ends the callback there: \<open>fail_at = Some k\<close> says that the send number \<open>k\<close>
  (from 0) raises.\<close>

definition on_open ::
  "(string \<Rightarrow> string \<Rightarrow> string) \<Rightarrow> trader \<Rightarrow> rat \<Rightarrow> nat option \<Rightarrow> trader" where
  "on_open hmac_hex s clock fail_at =
     (let frames =
            map (\<lambda>c. request_data hmac_hex s ''futures.tickers'' (Some ''subscribe'')
                       (Some (Contract_List [c])) False (py_int clock)) (contracts s) @
            [request_data hmac_hex s ''futures.orders'' (Some ''subscribe'') None True
               (py_int clock),
             request_data hmac_hex s ''futures.usertrades'' (Some ''subscribe'') None True
               (py_int clock)]
      in case fail_at of
           None \<Rightarrow> s\<lparr>sent := sent s @ frames, is_running := True\<rparr>
         | Some k \<Rightarrow>
             if k < length frames then s\<lparr>sent := sent s @ take k frames\<rparr>
             else s\<lparr>sent := sent s @ frames, is_running := True\<rparr>)"

definition check_trading_opportunities ::
  "(string \<Rightarrow> string \<Rightarrow> string) \<Rightarrow> trader \<Rightarrow> string \<Rightarrow> env \<Rightarrow> trader" where
  "check_trading_opportunities hmac_hex s contract e =
     (if \<not> is_running s then s
      else
        (let s1 = (if fst (should_place_buy_order s contract)
                   then snd (execute_buy_order hmac_hex s contract e) else s)
         in if fst (should_place_sell_order s1 contract) then
              (let (sold, s2) = execute_sell_order hmac_hex s1 contract e
               in if sold \<and> max_trades s2 \<le> trade_count s2 then stop_trading s2 else s2)
            else s1))"

text \<open>\<open>Decimal(str(ticker.get(key, default)))\<close>: \<open>None\<close> when the conversion raises.\<close>

definition parse_decimal :: "field \<Rightarrow> rat \<Rightarrow> rat option" where
  "parse_decimal f dflt = (case f of Absent \<Rightarrow> Some dflt | Num r \<Rightarrow> Some r | Malformed \<Rightarrow> None)"

text \<open>The cache update of \<open>on_ticker_message\<close> for one ticker object of a tracked
  contract: all seven fields are converted before the entry is replaced.\<close>

definition cache_ticker :: "trader \<Rightarrow> string \<Rightarrow> ticker_msg \<Rightarrow> trader option" where
  "cache_ticker s contract m =
     Option.bind (parse_decimal (t_last m) 0) (\<lambda>last_price.
     Option.bind (parse_decimal (t_bid m) (last_price * (9999 / 10000))) (\<lambda>bid_price.
     Option.bind (parse_decimal (t_ask m) (last_price * (10001 / 10000))) (\<lambda>ask_price.
     Option.bind (parse_decimal (t_volume_24h m) 0) (\<lambda>vol.
     Option.bind (parse_decimal (t_change_percentage m) 0) (\<lambda>chg.
     Option.bind (parse_decimal (t_mark_price m) last_price) (\<lambda>mark.
     Option.bind (parse_decimal (t_index_price m) last_price) (\<lambda>idx.
       Some (s\<lparr>tickers := (tickers s)(contract \<mapsto>
                 \<lparr> last_tk = last_price, bid = bid_price, ask = ask_price, volume = vol,
                   change_24h = chg, mark_price = mark, index_price = idx \<rparr>)\<rparr>))))))))"

text \<open>The loop of \<open>on_ticker_message\<close>. An exception (a field that does not convert) ends
  the loop; what earlier iterations did stays.\<close>

fun process_tickers ::
  "(string \<Rightarrow> string \<Rightarrow> string) \<Rightarrow> trader \<Rightarrow> (ticker_msg \<times> env) list \<Rightarrow> trader" where
  "process_tickers hmac_hex s [] = s"
| "process_tickers hmac_hex s ((m, e) # rest) =
     (case t_contract m of
        None \<Rightarrow> process_tickers hmac_hex s rest
      | Some contract \<Rightarrow>
          if contract \<in> set (contracts s) then
            (case cache_ticker s contract m of
               None \<Rightarrow> s
             | Some s1 \<Rightarrow>
                 process_tickers hmac_hex (check_trading_opportunities hmac_hex s1 contract e) rest)
          else process_tickers hmac_hex s rest)"

definition on_ticker_message ::
  "(string \<Rightarrow> string \<Rightarrow> string) \<Rightarrow> trader \<Rightarrow> ticker_data \<Rightarrow> trader" where
  "on_ticker_message hmac_hex s data =
     (case data of
        Single me \<Rightarrow> process_tickers hmac_hex s [me]
      | Array mes \<Rightarrow> process_tickers hmac_hex s mes)"

text \<open>What can happen to a running session: a ticker message, a message of another
  channel (logged only), the operator's interrupt (\<open>stop_trading\<close>), and the close of
  the socket (\<open>on_close\<close>).\<close>

datatype event = Ticker_Message ticker_data | Other_Message | Keyboard_Interrupt | Socket_Closed

fun step :: "(string \<Rightarrow> string \<Rightarrow> string) \<Rightarrow> trader \<Rightarrow> event \<Rightarrow> trader" where
  "step hmac_hex s (Ticker_Message data) = on_ticker_message hmac_hex s data"
| "step hmac_hex s Other_Message = s"
| "step hmac_hex s Keyboard_Interrupt = stop_trading s"
| "step hmac_hex s Socket_Closed = on_close s"

definition run :: "(string \<Rightarrow> string \<Rightarrow> string) \<Rightarrow> trader \<Rightarrow> event list \<Rightarrow> trader" where
  "run hmac_hex s evs = foldl (step hmac_hex) s evs"

text \<open>A session: the constructor, \<open>on_open\<close> (once), then the events.\<close>

definition session ::
  "(string \<Rightarrow> string \<Rightarrow> string) \<Rightarrow> config \<Rightarrow> rat \<Rightarrow> nat option \<Rightarrow> event list \<Rightarrow> trader" where
  "session hmac_hex cfg clock fail_at evs =
     run hmac_hex (on_open hmac_hex (init cfg) clock fail_at) evs"

subsection \<open>Fixtures\<close>

text \<open>Concrete inputs for the closed theorems below. No result depends on the digest, so
  a constant function stands for it there.\<close>

definition hmac_stub :: "string \<Rightarrow> string \<Rightarrow> string" where
  "hmac_stub k m = []"

definition demo_config :: config where
  "demo_config =
     \<lparr> cfg_key = ''key'', cfg_secret = ''secret'', cfg_contracts = [''BTC_USDT''],
       cfg_amount = 1, cfg_max_trades = 1, cfg_spread_threshold = 5 / 10000 \<rparr>"

text \<open>A ticker object for the contract of \<open>demo_config\<close> with \<open>last\<close>, and with \<open>bid\<close> and
  \<open>ask\<close> as given; every other field omitted.\<close>

definition ticker_of :: "rat \<Rightarrow> field \<Rightarrow> field \<Rightarrow> ticker_msg" where
  "ticker_of l b a =
     \<lparr> t_contract = Some ''BTC_USDT'', t_last = Num l, t_bid = b, t_ask = a,
       t_volume_24h = Absent, t_change_percentage = Absent, t_mark_price = Absent,
       t_index_price = Absent \<rparr>"

definition sends_ok :: env where
  "sends_ok = \<lparr> now = 1700000000, buy_send_ok = True, sell_send_ok = True \<rparr>"

text \<open>The session of \<open>demo_config\<close> right after \<open>on_open\<close>, and after the cache update for a
  ticker with \<open>last = 100\<close> and nothing else.\<close>

definition opened :: trader where
  "opened = session hmac_stub demo_config 1700000000 None []"

definition cached_100 :: trader where
  "cached_100 =
     (case cache_ticker opened ''BTC_USDT'' (ticker_of 100 Absent Absent) of
        None \<Rightarrow> opened | Some s \<Rightarrow> s)"

text \<open>The same session after a ticker with \<open>last = 100\<close> and \<open>bid = 90\<close> (a buy, no sell),
  and then with a later ticker at price \<open>b\<close> in the cache.\<close>

definition after_buy :: trader where
  "after_buy = session hmac_stub demo_config 1700000000 None
      [Ticker_Message (Single (ticker_of 100 (Num 90) Absent, sends_ok))]"

definition holding_with_bid :: "rat \<Rightarrow> trader" where
  "holding_with_bid b =
     (case cache_ticker after_buy ''BTC_USDT'' (ticker_of b (Num b) Absent) of
        None \<Rightarrow> after_buy | Some s \<Rightarrow> s)"

text \<open>The session right after \<open>on_open\<close> with a ticker in the cache whose \<open>last\<close> is 0 and
  whose ask is 5.\<close>

definition cached_last_0 :: trader where
  "cached_last_0 =
     (case cache_ticker opened ''BTC_USDT'' (ticker_of 0 Absent (Num 5)) of
        None \<Rightarrow> opened | Some s \<Rightarrow> s)"

text \<open>The opening orders (no \<open>close\<close> key) for a contract among frames handed to the
  socket.\<close>

definition open_orders :: "string \<Rightarrow> request_data list \<Rightarrow> order list" where
  "open_orders c fs =
     concat (map (\<lambda>f. case rq_payload f of
                        Some (Order ord) \<Rightarrow>
                          if o_contract ord = c \<and> o_close ord = None then [ord] else []
                      | _ \<Rightarrow> []) fs)"

section \<open>Properties\<close>

subsection \<open>Auxiliary facts about the single operations\<close>

lemma place_futures_order_eq:
  "place_futures_order H s c sz pr tif cl clk ok =
     (ok, if ok then s\<lparr>sent := sent s @ [request_data H s ''futures.orders'' None
        (Some (Order \<lparr> o_contract = c, o_size = sz, o_price = pr,
                  o_text = ''auto_trade_'' @ str_int (py_int clk), o_tif = tif,
                  o_close = (if cl then Some True else None),
                  o_reduce_only = (if cl then Some True else None) \<rparr>)) True (py_int clk)]\<rparr>
          else s)"
  by (simp add: place_futures_order_def request_def Let_def)

lemma execute_buy_order_fields:
  "trade_count (snd (execute_buy_order H s c e)) = trade_count s"
  "completed_trades (snd (execute_buy_order H s c e)) = completed_trades s"
  "is_running (snd (execute_buy_order H s c e)) = is_running s"
  "max_trades (snd (execute_buy_order H s c e)) = max_trades s"
  "trade_amount (snd (execute_buy_order H s c e)) = trade_amount s"
  "tickers (snd (execute_buy_order H s c e)) = tickers s"
  "contracts (snd (execute_buy_order H s c e)) = contracts s"
  "spread_threshold (snd (execute_buy_order H s c e)) = spread_threshold s"
  by (simp_all add: execute_buy_order_def place_futures_order_eq Let_def split: option.splits)

lemma execute_buy_order_position:
  "current_position (snd (execute_buy_order H s c e)) = current_position s \<or>
   (\<exists>t. tickers s c = Some t \<and> 0 < last_tk t \<and>
        current_position (snd (execute_buy_order H s c e)) =
          (current_position s)(c \<mapsto> \<lparr> size_pos = trade_amount s, entry_price = last_tk t,
                                       entry_time = now e \<rparr>))"
  by (simp add: execute_buy_order_def place_futures_order_eq Let_def split: option.splits)

lemma execute_sell_order_cases:
  "execute_sell_order H s c e = (b, s') \<Longrightarrow>
     (\<not> b \<and> trade_count s' = trade_count s \<and> completed_trades s' = completed_trades s
        \<and> current_position s' = current_position s)
   \<or> (b \<and> trade_count s' = trade_count s + 1
        \<and> (\<exists>r. completed_trades s' = completed_trades s @ [r])
        \<and> current_position s' = (current_position s)(c := None))"
  by (auto simp: execute_sell_order_def place_futures_order_eq Let_def
      split: option.splits if_splits)

lemma execute_sell_order_fields:
  "is_running (snd (execute_sell_order H s c e)) = is_running s"
  "max_trades (snd (execute_sell_order H s c e)) = max_trades s"
  "trade_amount (snd (execute_sell_order H s c e)) = trade_amount s"
  "tickers (snd (execute_sell_order H s c e)) = tickers s"
  "contracts (snd (execute_sell_order H s c e)) = contracts s"
  "spread_threshold (snd (execute_sell_order H s c e)) = spread_threshold s"
  by (simp_all add: execute_sell_order_def place_futures_order_eq Let_def split: option.splits)

lemma should_place_buy_order_True:
  "fst (should_place_buy_order s c) \<Longrightarrow>
     trade_count s < max_trades s \<and>
     (case current_position s c of None \<Rightarrow> True | Some p \<Rightarrow> size_pos p \<le> 0)"
  by (auto simp: should_place_buy_order_def split: option.splits if_splits)

lemma should_place_sell_order_True:
  "fst (should_place_sell_order s c) \<Longrightarrow> \<exists>p. current_position s c = Some p \<and> 0 < size_pos p"
  by (auto simp: should_place_sell_order_def Let_def split: option.splits if_splits)

lemma stop_trading_fields:
  "trade_count (stop_trading s) = trade_count s"
  "completed_trades (stop_trading s) = completed_trades s"
  "current_position (stop_trading s) = current_position s"
  "max_trades (stop_trading s) = max_trades s"
  "trade_amount (stop_trading s) = trade_amount s"
  "tickers (stop_trading s) = tickers s"
  "contracts (stop_trading s) = contracts s"
  "sent (stop_trading s) = sent s"
  "\<not> is_running (stop_trading s)"
  by (simp_all add: stop_trading_def)

subsection \<open>The fixtures, evaluated\<close>

lemma ticker_of_fields:
  "t_contract (ticker_of l b a) = Some ''BTC_USDT''" "t_last (ticker_of l b a) = Num l"
  "t_bid (ticker_of l b a) = b" "t_ask (ticker_of l b a) = a"
  by (simp_all add: ticker_of_def)

lemma opened_fields:
  "current_position opened = Map.empty" "tickers opened = Map.empty"
  "is_running opened" "trade_count opened = 0" "max_trades opened = 1"
  "trade_amount opened = 1" "spread_threshold opened = 5 / 10000"
  "contracts opened = [''BTC_USDT'']" "completed_trades opened = []"
  "length (sent opened) = 3"
  by (simp_all add: opened_def session_def run_def on_open_def init_def demo_config_def Let_def)

lemma cache_100:
  "cache_ticker opened ''BTC_USDT'' (ticker_of 100 Absent Absent) = Some cached_100"
  by (simp add: cached_100_def cache_ticker_def parse_decimal_def ticker_of_def)

lemma cached_100_fields:
  "current_position cached_100 = Map.empty"
  "tickers cached_100 =
     [''BTC_USDT'' \<mapsto> \<lparr> last_tk = 100, bid = 9999 / 100, ask = 10001 / 100,
        volume = 0, change_24h = 0, mark_price = 100, index_price = 100 \<rparr>]"
  "is_running cached_100" "trade_count cached_100 = 0" "max_trades cached_100 = 1"
  "trade_amount cached_100 = 1" "spread_threshold cached_100 = 5 / 10000"
  "completed_trades cached_100 = []" "sent cached_100 = sent opened"
  by (simp_all add: cached_100_def cache_ticker_def parse_decimal_def ticker_of_def
      opened_fields)

lemma after_buy_eq:
  "after_buy = on_ticker_message hmac_stub opened
     (Single (ticker_of 100 (Num 90) Absent, sends_ok))"
  by (simp add: after_buy_def opened_def session_def run_def)

lemma after_buy_fields:
  "current_position after_buy =
     [''BTC_USDT'' \<mapsto> \<lparr>size_pos = 1, entry_price = 100, entry_time = 1700000000\<rparr>]"
  "spread_threshold after_buy = 5 / 10000"
  "is_running after_buy" "trade_count after_buy = 0" "max_trades after_buy = 1"
  "trade_amount after_buy = 1" "completed_trades after_buy = []"
  "contracts after_buy = [''BTC_USDT'']"
  by (simp_all add: after_buy_eq on_ticker_message_def ticker_of_def opened_fields
      cache_ticker_def parse_decimal_def check_trading_opportunities_def
      should_place_buy_order_def should_place_sell_order_def execute_buy_order_def
      place_futures_order_eq calculate_spread_percentage_def sends_ok_def Let_def)

lemma holding_fields:
  "current_position (holding_with_bid b) = current_position after_buy"
  "spread_threshold (holding_with_bid b) = spread_threshold after_buy"
  "tickers (holding_with_bid b) ''BTC_USDT'' =
     Some \<lparr> last_tk = b, bid = b, ask = b * (10001 / 10000), volume = 0,
            change_24h = 0, mark_price = b, index_price = b \<rparr>"
  by (simp_all add: holding_with_bid_def cache_ticker_def parse_decimal_def ticker_of_def)

subsection \<open>The spread sentinel\<close>

text \<open>
  Claim C1 says that a reference price that is not positive makes
  \<open>calculate_spread_percentage\<close> return the sentinel 100. The source returns
  \<open>Decimal('1.0')\<close> on that branch (and in its exception handler), next to the comment
  that the value means 100 percent; on the scale of the function, which multiplies the
  ratio by 100, the value 1 is one percent. At current price 100 and reference price 0 the
  function returns 1, not 100.
\<close>

theorem calculate_spread_percentage_sentinel_is_1:
  "calculate_spread_percentage 100 0 = 1 \<and> calculate_spread_percentage 100 0 \<noteq> 100"
  by (simp add: calculate_spread_percentage_def)

subsection \<open>The sell rule\<close>



subsection \<open>A close without a position\<close>

text \<open>
  Claim C7: \<open>execute_sell_order\<close> for a contract that has no entry in the position map
  returns \<open>False\<close> and changes nothing: the position map, the trade count and the list of
  completed trades (and every other field) are as before.
\<close>

theorem execute_sell_order_no_position:
  assumes "current_position s c = None"
  shows "execute_sell_order H s c e = (False, s)"
  using assms by (simp add: execute_sell_order_def)

theorem execute_sell_order_no_position_witness:
  "current_position (init demo_config) ''BTC_USDT'' = None \<and>
   execute_sell_order hmac_stub (init demo_config) ''BTC_USDT'' sends_ok =
     (False, init demo_config)"
proof -
  have h: "current_position (init demo_config) ''BTC_USDT'' = None"
    by (simp add: init_def)
  show ?thesis
    using h execute_sell_order_no_position [OF h, of hmac_stub sends_ok] by simp
qed

subsection \<open>The authenticated envelope\<close>

text \<open>
  Claim C8: the envelope of a request carries the time, channel, event and payload it was
  built from; when authentication is required its \<open>auth\<close> object has the method
  \<open>api_key\<close>, the key of the trader, and as signature the digest, keyed by the secret, of
  the string \<open>channel=<channel>&event=<event>&time=<time>\<close> for the very time of the
  envelope; otherwise it has no \<open>auth\<close> object. A request whose send succeeds hands
  exactly this envelope to the socket. The last conjunct renders one such string.
\<close>

theorem request_data_auth:
  "rq_time (request_data H s ch ev pl a t) = t \<and>
   rq_channel (request_data H s ch ev pl a t) = ch \<and>
   rq_event (request_data H s ch ev pl a t) = ev \<and>
   rq_payload (request_data H s ch ev pl a t) = pl \<and>
   rq_auth (request_data H s ch ev pl True t) =
     Some \<lparr> auth_method = ''api_key'', KEY = api_key s,
            SIGN = H (api_secret s)
              (''channel='' @ ch @ ''&event='' @ str_event ev @ ''&time='' @ str_int t) \<rparr> \<and>
   rq_auth (request_data H s ch ev pl False t) = None \<and>
   request H s ch ev pl a clk True =
     Some (s\<lparr>sent := sent s @ [request_data H s ch ev pl a (py_int clk)]\<rparr>) \<and>
   ''channel='' @ ''futures.orders'' @ ''&event='' @ str_event (Some ''subscribe'') @
     ''&time='' @ str_int 1700000000 = ''channel=futures.orders&event=subscribe&time=1700000000''"
  by (simp add: request_data_def request_def get_sign_def str_event_def str_int_def)

subsection \<open>The entry price of a buy\<close>

text \<open>
  Claim C5 says that in a session with at most one trade and threshold 0.0005, a ticker
  with \<open>last = 100\<close> and no bid or ask (so that the cached ask is 100.01) triggers a buy
  whose recorded entry price is 100.01, the ask. The buy is triggered, but
  \<open>execute_buy_order\<close> reads the cached \<open>last\<close> price: the entry price it records is 100.
\<close>

theorem buy_entry_price_counterexample:
  "fst (should_place_buy_order cached_100 ''BTC_USDT'') \<and>
   map_option ask (tickers cached_100 ''BTC_USDT'') = Some (10001 / 100) \<and>
   map_option entry_price
     (current_position (snd (execute_buy_order hmac_stub cached_100 ''BTC_USDT'' sends_ok))
        ''BTC_USDT'') \<noteq> Some (10001 / 100)"
  by (simp add: should_place_buy_order_def execute_buy_order_def place_futures_order_eq
      cached_100_fields sends_ok_def Let_def)

text \<open>
  Claim C5 as amended: in that session the ticker with \<open>last = 100\<close> and no bid or ask is
  cached with ask 100.01 and triggers a buy, and the position that the buy records has
  entry price 100, the cached \<open>last\<close> price. (The last conjunct shows the position in the
  state after the whole ticker, in a run where the send of the sell order fails, so that
  the position is not closed again.)
\<close>

theorem buy_records_last_price:
  "cache_ticker opened ''BTC_USDT'' (ticker_of 100 Absent Absent) = Some cached_100 \<and>
   max_trades opened = 1 \<and> spread_threshold opened = 5 / 10000 \<and>
   should_place_buy_order cached_100 ''BTC_USDT'' = (True, Can_Buy (10001 / 100)) \<and>
   fst (execute_buy_order hmac_stub cached_100 ''BTC_USDT'' sends_ok) \<and>
   current_position (snd (execute_buy_order hmac_stub cached_100 ''BTC_USDT'' sends_ok))
     ''BTC_USDT'' = Some \<lparr> size_pos = 1, entry_price = 100, entry_time = 1700000000 \<rparr> \<and>
   current_position
     (on_ticker_message hmac_stub opened
        (Single (ticker_of 100 Absent Absent, sends_ok\<lparr>sell_send_ok := False\<rparr>)))
     ''BTC_USDT'' =
     Some \<lparr> size_pos = 1, entry_price = 100, entry_time = 1700000000 \<rparr>"
  by (simp add: cache_100 ticker_of_fields on_ticker_message_def opened_fields
      check_trading_opportunities_def should_place_buy_order_def should_place_sell_order_def
      execute_buy_order_def execute_sell_order_def place_futures_order_eq
      calculate_spread_percentage_def cached_100_fields sends_ok_def Let_def)

subsection \<open>A buy and a sell within one check\<close>

text \<open>
  Claim C9: there is an inbound ticker (\<open>last = 100\<close>, bid and ask omitted) for which, with
  threshold 0.0005, no position and the budget not used up, one call of
  \<open>check_trading_opportunities\<close> opens a position and closes it again: the buy records
  the entry at the \<open>last\<close> price 100, the defaulted bid 99.99 gives a spread of 0.01, which
  is within 0.05, so the sell branch of the same call fires; the trade count is 1
  afterwards, one trade is recorded, no position is left, and both orders were sent.
\<close>

theorem buy_and_sell_in_one_check:
  "\<exists>m. t_last m = Num 100 \<and> t_bid m = Absent \<and> t_ask m = Absent \<and>
     (let s0 = opened;
          s1 = cached_100;
          s' = check_trading_opportunities hmac_stub s1 ''BTC_USDT'' sends_ok
      in cache_ticker s0 ''BTC_USDT'' m = Some s1 \<and>
         on_ticker_message hmac_stub s0 (Single (m, sends_ok)) = s' \<and>
         spread_threshold s0 = 5 / 10000 \<and> max_trades s0 = 1 \<and>
         current_position s0 ''BTC_USDT'' = None \<and> trade_count s0 = 0 \<and> is_running s0 \<and>
         fst (should_place_buy_order s1 ''BTC_USDT'') \<and>
         current_position (snd (execute_buy_order hmac_stub s1 ''BTC_USDT'' sends_ok))
           ''BTC_USDT'' = Some \<lparr> size_pos = 1, entry_price = 100, entry_time = 1700000000 \<rparr> \<and>
         map_option bid (tickers s1 ''BTC_USDT'') = Some (9999 / 100) \<and>
         calculate_spread_percentage (9999 / 100) 100 = 1 / 100 \<and>
         current_position s' ''BTC_USDT'' = None \<and>
         trade_count s' = 1 \<and>
         map (\<lambda>r. (tr_contract r, tr_entry_price r, tr_exit_price r, tr_size r, tr_profit r,
                   tr_profit_pct r)) (completed_trades s') =
           [(''BTC_USDT'', 100, 9999 / 100, 1, - (1 / 100), 1 / 100)] \<and>
         map (\<lambda>f. case rq_payload f of
                     Some (Order ord) \<Rightarrow> Some (o_contract ord, o_size ord, o_close ord)
                   | _ \<Rightarrow> None)
           (drop (length (sent s0)) (sent s')) =
           [Some (''BTC_USDT'', 1, None), Some (''BTC_USDT'', - 1, Some True)] \<and>
         \<not> is_running s')"
  apply (rule exI [of _ "ticker_of 100 Absent Absent"])
  apply (simp add: cache_100 ticker_of_fields on_ticker_message_def opened_fields
      check_trading_opportunities_def should_place_buy_order_def should_place_sell_order_def
      execute_buy_order_def execute_sell_order_def place_futures_order_eq
      calculate_spread_percentage_def stop_trading_def request_data_def
      cached_100_fields sends_ok_def Let_def)
  done

subsection \<open>One check, and invariants of a run\<close>

text \<open>What one call of \<open>check_trading_opportunities\<close> does to a running trader: either no
  trade completes (and a position may have been opened), or exactly one does.\<close>

lemma check_trading_opportunities_effect:
  fixes H s c e
  assumes run: "is_running s"
  defines "s' \<equiv> check_trading_opportunities H s c e"
  shows "max_trades s' = max_trades s \<and> trade_amount s' = trade_amount s \<and>
         contracts s' = contracts s \<and> tickers s' = tickers s \<and>
    ((trade_count s' = trade_count s \<and> completed_trades s' = completed_trades s \<and> is_running s' \<and>
       (current_position s' = current_position s \<or>
        (fst (should_place_buy_order s c) \<and>
         (\<exists>t. tickers s c = Some t \<and> 0 < last_tk t \<and>
            current_position s' = (current_position s)(c \<mapsto>
              \<lparr> size_pos = trade_amount s, entry_price = last_tk t, entry_time = now e \<rparr>)))))
     \<or>
     (trade_count s' = trade_count s + 1 \<and> (\<exists>r. completed_trades s' = completed_trades s @ [r]) \<and>
      (is_running s' \<longleftrightarrow> trade_count s + 1 < max_trades s) \<and>
      current_position s' = (current_position s)(c := None) \<and>
      (fst (should_place_buy_order s c) \<or> (\<exists>p. current_position s c = Some p \<and> 0 < size_pos p))))"
proof -
  define s1 where "s1 = (if fst (should_place_buy_order s c)
                   then snd (execute_buy_order H s c e) else s)"
  have f1: "trade_count s1 = trade_count s" "completed_trades s1 = completed_trades s"
    "is_running s1" "max_trades s1 = max_trades s" "trade_amount s1 = trade_amount s"
    "tickers s1 = tickers s" "contracts s1 = contracts s"
    using run by (simp_all add: s1_def execute_buy_order_fields)
  have p1: "current_position s1 = current_position s \<or>
        (fst (should_place_buy_order s c) \<and>
         (\<exists>t. tickers s c = Some t \<and> 0 < last_tk t \<and>
            current_position s1 = (current_position s)(c \<mapsto>
              \<lparr> size_pos = trade_amount s, entry_price = last_tk t, entry_time = now e \<rparr>)))"
    using execute_buy_order_position [of H s c e] by (auto simp: s1_def)
  show ?thesis
  proof (cases "fst (should_place_sell_order s1 c)")
    case False
    then have "s' = s1"
      using run by (simp add: s'_def check_trading_opportunities_def s1_def Let_def)
    then show ?thesis using f1 p1 by auto
  next
    case True
    obtain sold s2 where ex: "execute_sell_order H s1 c e = (sold, s2)"
      by (cases "execute_sell_order H s1 c e")
    have s': "s' = (if sold \<and> max_trades s2 \<le> trade_count s2 then stop_trading s2 else s2)"
      using run True ex by (simp add: s'_def check_trading_opportunities_def s1_def Let_def)
    have f2: "is_running s2" "max_trades s2 = max_trades s" "trade_amount s2 = trade_amount s"
       "tickers s2 = tickers s" "contracts s2 = contracts s"
      using execute_sell_order_fields [of H s1 c e] ex f1 by simp_all
    from True obtain p where p: "current_position s1 c = Some p" "0 < size_pos p"
      using should_place_sell_order_True by blast
    have orig: "fst (should_place_buy_order s c) \<or> (\<exists>p. current_position s c = Some p \<and> 0 < size_pos p)"
      using p p1 by auto
    from execute_sell_order_cases [OF ex] show ?thesis
    proof
      assume a: "\<not> sold \<and> trade_count s2 = trade_count s1 \<and> completed_trades s2 = completed_trades s1
        \<and> current_position s2 = current_position s1"
      then have "s' = s2" using s' by simp
      then show ?thesis using a f1 f2 p1 by auto
    next
      assume a: "sold \<and> trade_count s2 = trade_count s1 + 1 \<and>
         (\<exists>r. completed_trades s2 = completed_trades s1 @ [r])
        \<and> current_position s2 = (current_position s1)(c := None)"
      have cp: "current_position s2 = (current_position s)(c := None)"
        using a p1 by auto
      show ?thesis
      proof (cases "max_trades s2 \<le> trade_count s2")
        case True
        then have "s' = stop_trading s2" using s' a by simp
        then show ?thesis using a f1 f2 cp orig True by (simp add: stop_trading_fields)
      next
        case False
        then have "s' = s2" using s' by simp
        then show ?thesis using a f1 f2 cp orig False by simp
      qed
    qed
  qed
qed

lemma check_trading_opportunities_stopped:
  "\<not> is_running s \<Longrightarrow> check_trading_opportunities H s c e = s"
  by (simp add: check_trading_opportunities_def)

lemma cache_ticker_fields:
  assumes "cache_ticker s c m = Some s1"
  shows "current_position s1 = current_position s" "trade_count s1 = trade_count s"
    "completed_trades s1 = completed_trades s" "is_running s1 = is_running s"
    "max_trades s1 = max_trades s" "trade_amount s1 = trade_amount s"
    "contracts s1 = contracts s" "sent s1 = sent s"
  using assms by (auto simp: cache_ticker_def bind_eq_Some_conv)

lemma process_tickers_invariant:
  assumes cache: "\<And>s c m s1. P s \<Longrightarrow> cache_ticker s c m = Some s1 \<Longrightarrow> P s1"
    and check: "\<And>s c e. P s \<Longrightarrow> P (check_trading_opportunities H s c e)"
  shows "P s \<Longrightarrow> P (process_tickers H s mes)"
proof (induction mes arbitrary: s)
  case Nil
  then show ?case by simp
next
  case (Cons me mes)
  obtain m e where me: "me = (m, e)" by (cases me)
  show ?case
    using Cons.prems Cons.IH cache check
    by (auto simp: me split: option.splits)
qed

lemma step_invariant:
  assumes cache: "\<And>s c m s1. P s \<Longrightarrow> cache_ticker s c m = Some s1 \<Longrightarrow> P s1"
    and check: "\<And>s c e. P s \<Longrightarrow> P (check_trading_opportunities H s c e)"
    and stop: "\<And>s. P s \<Longrightarrow> P (stop_trading s)"
    and close: "\<And>s. P s \<Longrightarrow> P (on_close s)"
    and s: "P s"
  shows "P (step H s ev)"
proof -
  have pt: "P (process_tickers H s mes)" for mes
    by (rule process_tickers_invariant [where P = P]) (erule cache, assumption, erule check, rule s)
  show ?thesis
  proof (cases ev)
    case (Ticker_Message d)
    then show ?thesis using pt by (cases d) (simp_all add: on_ticker_message_def)
  next
    case Other_Message
    then show ?thesis using s by simp
  next
    case Keyboard_Interrupt
    then show ?thesis using stop [OF s] by simp
  next
    case Socket_Closed
    then show ?thesis using close [OF s] by simp
  qed
qed

lemma run_invariant:
  assumes cache: "\<And>s c m s1. P s \<Longrightarrow> cache_ticker s c m = Some s1 \<Longrightarrow> P s1"
    and check: "\<And>s c e. P s \<Longrightarrow> P (check_trading_opportunities H s c e)"
    and stop: "\<And>s. P s \<Longrightarrow> P (stop_trading s)"
    and close: "\<And>s. P s \<Longrightarrow> P (on_close s)"
  shows "P s \<Longrightarrow> P (run H s evs)"
  unfolding run_def
proof (induction evs arbitrary: s)
  case Nil
  then show ?case by simp
next
  case (Cons ev evs)
  have "P (step H s ev)"
    by (rule step_invariant [where P = P])
       (erule cache, assumption, erule check, erule stop, erule close, rule Cons.prems)
  then show ?case using Cons.IH by simp
qed

lemma on_open_fields:
  "current_position (on_open H s clk fa) = current_position s"
  "trade_count (on_open H s clk fa) = trade_count s"
  "completed_trades (on_open H s clk fa) = completed_trades s"
  "max_trades (on_open H s clk fa) = max_trades s"
  "trade_amount (on_open H s clk fa) = trade_amount s"
  by (simp_all add: on_open_def Let_def split: option.splits)

lemma init_fields:
  "current_position (init cfg) = Map.empty" "trade_count (init cfg) = 0"
  "completed_trades (init cfg) = []" "max_trades (init cfg) = cfg_max_trades cfg"
  "trade_amount (init cfg) = cfg_amount cfg" "\<not> is_running (init cfg)"
  by (simp_all add: init_def)

lemma running_check:
  assumes "is_running s \<longleftrightarrow> trade_count s < max_trades s"
  shows "max_trades (check_trading_opportunities H s c e) = max_trades s \<and>
         (is_running (check_trading_opportunities H s c e) \<longleftrightarrow>
            trade_count (check_trading_opportunities H s c e) < max_trades s)"
proof (cases "is_running s")
  case True
  then show ?thesis
    using check_trading_opportunities_effect [OF True, of H c e] assms by auto
next
  case False
  then show ?thesis using assms by (simp add: check_trading_opportunities_stopped)
qed

lemma running_process_tickers:
  assumes "max_trades s = M \<and> (is_running s \<longleftrightarrow> trade_count s < M)"
  shows "max_trades (process_tickers H s mes) = M \<and>
         (is_running (process_tickers H s mes) \<longleftrightarrow> trade_count (process_tickers H s mes) < M)"
  by (rule process_tickers_invariant
        [where P = "\<lambda>s. max_trades s = M \<and> (is_running s \<longleftrightarrow> trade_count s < M)"])
     (use assms running_check in \<open>auto simp: cache_ticker_fields\<close>)

lemma running_messages:
  assumes "max_trades s = M \<and> (is_running s \<longleftrightarrow> trade_count s < M)"
  shows "max_trades (foldl (on_ticker_message H) s ds) = M \<and>
         (is_running (foldl (on_ticker_message H) s ds) \<longleftrightarrow>
            trade_count (foldl (on_ticker_message H) s ds) < M)"
  using assms
proof (induction ds arbitrary: s)
  case Nil
  then show ?case by simp
next
  case (Cons d ds)
  have "max_trades (on_ticker_message H s d) = M \<and>
        (is_running (on_ticker_message H s d) \<longleftrightarrow> trade_count (on_ticker_message H s d) < M)"
    using running_process_tickers [OF Cons.prems]
    by (cases d) (simp_all add: on_ticker_message_def)
  then show ?case using Cons.IH by simp
qed

lemma cache_holding:
  "cache_ticker after_buy ''BTC_USDT'' (ticker_of b (Num b) Absent) = Some (holding_with_bid b)"
  by (simp add: holding_with_bid_def cache_ticker_def parse_decimal_def ticker_of_def)

lemma holding_more_fields:
  "is_running (holding_with_bid b)" "trade_count (holding_with_bid b) = 0"
  "max_trades (holding_with_bid b) = 1" "trade_amount (holding_with_bid b) = 1"
  "completed_trades (holding_with_bid b) = []"
  using cache_ticker_fields [OF cache_holding, of b] by (simp_all add: after_buy_fields)

subsection \<open>The running flag\<close>

text \<open>
  Claim C3: without an external stop, the running flag stays true while the trade count is
  below the maximum, and goes to false exactly when the count reaches the maximum, in the
  very call of \<open>check_trading_opportunities\<close> whose close reached it. First conjunct: one
  check of a running trader below its maximum leaves the flag true exactly when the count
  is still below the maximum, and the flag is false afterwards exactly when this check
  completed a trade (count and history grew by one) that made the count equal to the
  maximum. Second conjunct: that the flag is true exactly when the count is below the
  maximum is kept by every sequence of ticker messages. Third conjunct: in a session
  with a positive maximum this holds from \<open>on_open\<close> on, so after every sequence of ticker
  messages the flag is true exactly when the count is below the maximum.
\<close>

theorem running_flag:
  "(is_running s \<and> trade_count s < max_trades s \<longrightarrow>
      (let s' = check_trading_opportunities H s c e
       in max_trades s' = max_trades s \<and>
          (is_running s' \<longleftrightarrow> trade_count s' < max_trades s') \<and>
          (\<not> is_running s' \<longleftrightarrow>
             trade_count s' = max_trades s' \<and> trade_count s' = trade_count s + 1 \<and>
             length (completed_trades s') = length (completed_trades s) + 1))) \<and>
   ((is_running s \<longleftrightarrow> trade_count s < max_trades s) \<longrightarrow>
      (let s' = foldl (on_ticker_message H) s ds
       in max_trades s' = max_trades s \<and>
          (is_running s' \<longleftrightarrow> trade_count s' < max_trades s'))) \<and>
   (0 < cfg_max_trades cfg \<longrightarrow>
      (let s' = foldl (on_ticker_message H) (on_open H (init cfg) clk None) ds
       in max_trades s' = cfg_max_trades cfg \<and>
          (is_running s' \<longleftrightarrow> trade_count s' < max_trades s')))"
proof (intro conjI impI)
  assume a: "is_running s \<and> trade_count s < max_trades s"
  then have r: "is_running s" by simp
  show "let s' = check_trading_opportunities H s c e
       in max_trades s' = max_trades s \<and>
          (is_running s' \<longleftrightarrow> trade_count s' < max_trades s') \<and>
          (\<not> is_running s' \<longleftrightarrow>
             trade_count s' = max_trades s' \<and> trade_count s' = trade_count s + 1 \<and>
             length (completed_trades s') = length (completed_trades s) + 1)"
    using check_trading_opportunities_effect [OF r, of H c e] a
    unfolding Let_def by auto
next
  assume "is_running s \<longleftrightarrow> trade_count s < max_trades s"
  then show "let s' = foldl (on_ticker_message H) s ds
       in max_trades s' = max_trades s \<and>
          (is_running s' \<longleftrightarrow> trade_count s' < max_trades s')"
    using running_messages [of s "max_trades s" H ds] by (simp add: Let_def)
next
  assume "0 < cfg_max_trades cfg"
  then show "let s' = foldl (on_ticker_message H) (on_open H (init cfg) clk None) ds
       in max_trades s' = cfg_max_trades cfg \<and>
          (is_running s' \<longleftrightarrow> trade_count s' < max_trades s')"
    using running_messages [of "on_open H (init cfg) clk None" "cfg_max_trades cfg" H ds]
    by (simp add: Let_def on_open_fields init_fields on_open_def)
qed

theorem running_flag_witness:
  "is_running cached_100 \<and> trade_count cached_100 < max_trades cached_100 \<and>
   (let s' = check_trading_opportunities hmac_stub cached_100 ''BTC_USDT'' sends_ok
    in \<not> is_running s' \<and> trade_count s' = max_trades s' \<and>
       trade_count s' = trade_count cached_100 + 1) \<and>
   (is_running opened \<longleftrightarrow> trade_count opened < max_trades opened) \<and>
   is_running
     (foldl (on_ticker_message hmac_stub) opened
        [Single (ticker_of 100 (Num 90) Absent, sends_ok)]) \<and>
   (let s' = foldl (on_ticker_message hmac_stub) opened
               [Single (ticker_of 100 (Num 90) Absent, sends_ok),
                Single (ticker_of (9995 / 100) (Num (9995 / 100)) Absent, sends_ok)]
    in max_trades s' = 1 \<and> trade_count s' = 1 \<and> \<not> is_running s') \<and>
   0 < cfg_max_trades demo_config \<and>
   is_running (foldl (on_ticker_message hmac_stub)
                 (on_open hmac_stub (init demo_config) 1700000000 None) [])"
proof -
  have h1: "is_running cached_100 \<and> trade_count cached_100 < max_trades cached_100"
    by (simp add: cached_100_fields)
  have h2: "is_running opened \<longleftrightarrow> trade_count opened < max_trades opened"
    by (simp add: opened_fields)
  have c1: "trade_count (check_trading_opportunities hmac_stub cached_100 ''BTC_USDT'' sends_ok)
              = 1"
    by (simp add: check_trading_opportunities_def should_place_buy_order_def
        should_place_sell_order_def execute_buy_order_def execute_sell_order_def
        place_futures_order_eq calculate_spread_percentage_def stop_trading_def
        cached_100_fields sends_ok_def Let_def)
  have e2: "foldl (on_ticker_message hmac_stub) opened
               [Single (ticker_of 100 (Num 90) Absent, sends_ok),
                Single (ticker_of (9995 / 100) (Num (9995 / 100)) Absent, sends_ok)] =
            on_ticker_message hmac_stub after_buy
              (Single (ticker_of (9995 / 100) (Num (9995 / 100)) Absent, sends_ok))"
    by (simp add: after_buy_eq)
  have c2: "trade_count
              (on_ticker_message hmac_stub after_buy
                 (Single (ticker_of (9995 / 100) (Num (9995 / 100)) Absent, sends_ok))) = 1"
    by (simp add: on_ticker_message_def ticker_of_fields
        after_buy_fields cache_holding holding_fields holding_more_fields
        check_trading_opportunities_def should_place_buy_order_def
        should_place_sell_order_def execute_sell_order_def
        place_futures_order_eq calculate_spread_percentage_def stop_trading_def
        sends_ok_def Let_def)
  have a: "let s' = check_trading_opportunities hmac_stub cached_100 ''BTC_USDT'' sends_ok
           in max_trades s' = max_trades cached_100 \<and>
              (is_running s' \<longleftrightarrow> trade_count s' < max_trades s') \<and>
              (\<not> is_running s' \<longleftrightarrow>
                 trade_count s' = max_trades s' \<and> trade_count s' = trade_count cached_100 + 1 \<and>
                 length (completed_trades s') = length (completed_trades cached_100) + 1)"
    using running_flag [of cached_100 hmac_stub "''BTC_USDT''" sends_ok "[]" demo_config 0,
        THEN conjunct1, THEN mp, OF h1] .
  have b: "let s' = foldl (on_ticker_message hmac_stub) opened ds
           in max_trades s' = max_trades opened \<and>
              (is_running s' \<longleftrightarrow> trade_count s' < max_trades s')" for ds
    using running_flag [of opened hmac_stub "''BTC_USDT''" sends_ok ds demo_config 0,
        THEN conjunct2, THEN conjunct1, THEN mp, OF h2] .
  have h3: "0 < cfg_max_trades demo_config" by (simp add: demo_config_def)
  have c: "let s' = foldl (on_ticker_message hmac_stub)
                      (on_open hmac_stub (init demo_config) 1700000000 None) ds
           in max_trades s' = cfg_max_trades demo_config \<and>
              (is_running s' \<longleftrightarrow> trade_count s' < max_trades s')" for ds
    using running_flag [of opened hmac_stub "''BTC_USDT''" sends_ok ds demo_config 1700000000,
        THEN conjunct2, THEN conjunct2, THEN mp, OF h3] .
  have b1: "is_running
     (foldl (on_ticker_message hmac_stub) opened
        [Single (ticker_of 100 (Num 90) Absent, sends_ok)])"
    using b [of "[Single (ticker_of 100 (Num 90) Absent, sends_ok)]"]
    by (simp add: Let_def after_buy_eq [symmetric] after_buy_fields opened_fields)
  show ?thesis
    using h1 h2 a b1
      b [of "[Single (ticker_of 100 (Num 90) Absent, sends_ok),
              Single (ticker_of (9995 / 100) (Num (9995 / 100)) Absent, sends_ok)]"]
      c1 c2 h3 c [of "[]"]
    unfolding e2
    by (simp add: Let_def cached_100_fields opened_fields on_open_fields init_fields)
qed

subsection \<open>The trade count and the history\<close>

lemma on_close_fields:
  "current_position (on_close s) = current_position s"
  "trade_count (on_close s) = trade_count s"
  "completed_trades (on_close s) = completed_trades s"
  "max_trades (on_close s) = max_trades s"
  "trade_amount (on_close s) = trade_amount s"
  "\<not> is_running (on_close s)"
  by (simp_all add: on_close_def)

lemma check_trading_opportunities_config:
  "max_trades (check_trading_opportunities H s c e) = max_trades s"
  "trade_amount (check_trading_opportunities H s c e) = trade_amount s"
  using check_trading_opportunities_effect [of s H c e]
    check_trading_opportunities_stopped [of s H c e]
  by (cases "is_running s"; simp)+

lemma count_check:
  fixes H s c e M
  assumes inv: "max_trades s = M \<and> trade_count s = int (length (completed_trades s)) \<and>
      trade_count s \<le> M \<and>
      (\<not> is_running s \<or> trade_count s < M \<or>
       (\<forall>c p. current_position s c = Some p \<longrightarrow> size_pos p \<le> 0))"
  defines "s' \<equiv> check_trading_opportunities H s c e"
  shows "max_trades s' = M \<and> trade_count s' = int (length (completed_trades s')) \<and>
      trade_count s' \<le> M \<and>
      (\<not> is_running s' \<or> trade_count s' < M \<or>
       (\<forall>c p. current_position s' c = Some p \<longrightarrow> size_pos p \<le> 0))"
proof (cases "is_running s")
  case False
  then show ?thesis using inv by (simp add: s'_def check_trading_opportunities_stopped)
next
  case True
  note eff = check_trading_opportunities_effect [OF True, of H c e, folded s'_def]
  have buy: "fst (should_place_buy_order s c) \<Longrightarrow> trade_count s < M"
    using should_place_buy_order_True [of s c] inv by simp
  from eff have "(trade_count s' = trade_count s \<and> completed_trades s' = completed_trades s \<and>
       is_running s' \<and>
       (current_position s' = current_position s \<or> fst (should_place_buy_order s c)))
     \<or> (trade_count s' = trade_count s + 1 \<and>
         (\<exists>r. completed_trades s' = completed_trades s @ [r]) \<and>
         (is_running s' \<longleftrightarrow> trade_count s + 1 < max_trades s) \<and>
         (fst (should_place_buy_order s c) \<or>
          (\<exists>p. current_position s c = Some p \<and> 0 < size_pos p)))"
    by blast
  then show ?thesis
  proof
    assume a: "trade_count s' = trade_count s \<and> completed_trades s' = completed_trades s \<and>
       is_running s' \<and>
       (current_position s' = current_position s \<or> fst (should_place_buy_order s c))"
    show ?thesis
    proof (cases "fst (should_place_buy_order s c)")
      case True
      then show ?thesis using a inv eff buy by simp
    next
      case False
      then have "current_position s' = current_position s" using a by simp
      then show ?thesis using a inv eff True by auto
    qed
  next
    assume a: "trade_count s' = trade_count s + 1 \<and>
         (\<exists>r. completed_trades s' = completed_trades s @ [r]) \<and>
         (is_running s' \<longleftrightarrow> trade_count s + 1 < max_trades s) \<and>
         (fst (should_place_buy_order s c) \<or>
          (\<exists>p. current_position s c = Some p \<and> 0 < size_pos p))"
    have lt: "trade_count s < M"
      using a buy inv True by force
    show ?thesis using a inv eff lt by auto
  qed
qed

lemma count_run:
  assumes "max_trades s = M \<and> trade_count s = int (length (completed_trades s)) \<and>
      trade_count s \<le> M \<and>
      (\<not> is_running s \<or> trade_count s < M \<or>
       (\<forall>c p. current_position s c = Some p \<longrightarrow> size_pos p \<le> 0))"
  shows "max_trades (run H s evs) = M \<and>
      trade_count (run H s evs) = int (length (completed_trades (run H s evs))) \<and>
      trade_count (run H s evs) \<le> M"
proof -
  let ?P = "\<lambda>s. max_trades s = M \<and> trade_count s = int (length (completed_trades s)) \<and>
      trade_count s \<le> M \<and>
      (\<not> is_running s \<or> trade_count s < M \<or>
       (\<forall>c p. current_position s c = Some p \<longrightarrow> size_pos p \<le> 0))"
  have "?P (run H s evs)"
  proof (rule run_invariant [where P = ?P])
    show "?P s1" if "?P s0" "cache_ticker s0 c m = Some s1" for s0 c m s1
      using that(1) unfolding cache_ticker_fields [OF that(2)] .
    show "?P (check_trading_opportunities H s0 c e)" if "?P s0" for s0 c e
      using count_check [OF that] .
    show "?P (stop_trading s0)" if "?P s0" for s0
      using that by (simp add: stop_trading_fields)
    show "?P (on_close s0)" if "?P s0" for s0
      using that by (simp add: on_close_fields)
    show "?P s" by (rule assms)
  qed
  then show ?thesis by simp
qed

lemma length_run:
  assumes "trade_count s = int (length (completed_trades s))"
  shows "trade_count (run H s evs) = int (length (completed_trades (run H s evs)))"
proof (rule run_invariant [where P = "\<lambda>s. trade_count s = int (length (completed_trades s))"])
  show "trade_count s1 = int (length (completed_trades s1))"
    if "trade_count s0 = int (length (completed_trades s0))" "cache_ticker s0 c m = Some s1"
    for s0 c m s1
    using that cache_ticker_fields [OF that(2)] by simp
  show "trade_count (check_trading_opportunities H s0 c e) =
        int (length (completed_trades (check_trading_opportunities H s0 c e)))"
    if "trade_count s0 = int (length (completed_trades s0))" for s0 c e
  proof (cases "is_running s0")
    case True
    then show ?thesis
      using check_trading_opportunities_effect [OF True, of H c e] that by auto
  next
    case False
    then show ?thesis using that by (simp add: check_trading_opportunities_stopped)
  qed
  show "trade_count (stop_trading s0) = int (length (completed_trades (stop_trading s0)))"
    if "trade_count s0 = int (length (completed_trades s0))" for s0
    using that by (simp add: stop_trading_fields)
  show "trade_count (on_close s0) = int (length (completed_trades (on_close s0)))"
    if "trade_count s0 = int (length (completed_trades s0))" for s0
    using that by (simp add: on_close_fields)
  show "trade_count s = int (length (completed_trades s))" by (rule assms)
qed

text \<open>
  Claim C6 says that at all times the trade count is the length of the list of completed
  trades and is at most the maximum. The constructor takes \<open>max_trades\<close> from the
  configuration as it is and starts the count at 0; with a negative maximum the count
  exceeds it from the start.
\<close>

theorem trade_count_exceeds_negative_maximum:
  "\<not> trade_count (init (demo_config\<lparr>cfg_max_trades := - 1\<rparr>))
       \<le> max_trades (init (demo_config\<lparr>cfg_max_trades := - 1\<rparr>)) \<and>
   \<not> trade_count (session hmac_stub (demo_config\<lparr>cfg_max_trades := - 1\<rparr>) 1700000000 None [])
       \<le> max_trades (session hmac_stub (demo_config\<lparr>cfg_max_trades := - 1\<rparr>) 1700000000 None [])"
  by (simp add: session_def run_def on_open_fields init_fields demo_config_def)

text \<open>
  Claim C6 as amended: after the constructor, and in a session after \<open>on_open\<close> and any
  sequence of events (ticker messages, other messages, the operator's stop, the close of
  the socket), the trade count is the length of the list of completed trades; when the
  configured maximum is not negative, the count never exceeds it. A sell that succeeds
  adds one to the count and appends one record; a sell that fails, and every buy, leave
  both as they were.
\<close>

theorem trade_count_history:
  "trade_count (init cfg) = int (length (completed_trades (init cfg))) \<and>
   (let s = session H cfg clk fail_at evs
    in trade_count s = int (length (completed_trades s)) \<and> max_trades s = cfg_max_trades cfg) \<and>
   (0 \<le> cfg_max_trades cfg \<longrightarrow>
      trade_count (init cfg) \<le> max_trades (init cfg) \<and>
      trade_count (session H cfg clk fail_at evs) \<le> max_trades (session H cfg clk fail_at evs)) \<and>
   (let (sold, s') = execute_sell_order H s c e
    in if sold
       then trade_count s' = trade_count s + 1 \<and>
            (\<exists>r. completed_trades s' = completed_trades s @ [r])
       else trade_count s' = trade_count s \<and> completed_trades s' = completed_trades s) \<and>
   trade_count (snd (execute_buy_order H s c e)) = trade_count s \<and>
   completed_trades (snd (execute_buy_order H s c e)) = completed_trades s"
proof -
  let ?s0 = "on_open H (init cfg) clk fail_at"
  have l: "trade_count ?s0 = int (length (completed_trades ?s0))"
    by (simp add: on_open_fields init_fields)
  have m: "max_trades (run H ?s0 evs) = cfg_max_trades cfg"
    by (rule run_invariant [where P = "\<lambda>s. max_trades s = cfg_max_trades cfg"])
       (simp_all add: cache_ticker_fields stop_trading_fields on_close_fields on_open_fields
          init_fields check_trading_opportunities_config)
  have a: "let s = session H cfg clk fail_at evs
    in trade_count s = int (length (completed_trades s)) \<and> max_trades s = cfg_max_trades cfg"
    using length_run [OF l, of H evs] m by (simp add: session_def Let_def)
  have b: "trade_count (session H cfg clk fail_at evs) \<le> max_trades (session H cfg clk fail_at evs)"
    if "0 \<le> cfg_max_trades cfg"
    using count_run [of ?s0 "cfg_max_trades cfg" H evs] that
    by (simp add: session_def on_open_fields init_fields)
  have c: "let (sold, s') = execute_sell_order H s c e
    in if sold
       then trade_count s' = trade_count s + 1 \<and>
            (\<exists>r. completed_trades s' = completed_trades s @ [r])
       else trade_count s' = trade_count s \<and> completed_trades s' = completed_trades s"
    using execute_sell_order_cases [of H s c e]
    by (cases "execute_sell_order H s c e") auto
  show ?thesis
    using a b c by (simp add: init_fields execute_buy_order_fields)
qed

lemma one_trade_session:
  "session hmac_stub demo_config 1700000000 None
     [Ticker_Message (Single (ticker_of 100 Absent Absent, sends_ok))] =
   check_trading_opportunities hmac_stub cached_100 ''BTC_USDT'' sends_ok"
  by (simp add: session_def run_def opened_def [unfolded session_def run_def, simplified, symmetric]
      on_ticker_message_def ticker_of_fields opened_fields cache_100)

lemma one_trade_fields:
  "trade_count (check_trading_opportunities hmac_stub cached_100 ''BTC_USDT'' sends_ok) = 1"
  "length (completed_trades
     (check_trading_opportunities hmac_stub cached_100 ''BTC_USDT'' sends_ok)) = 1"
  "max_trades (check_trading_opportunities hmac_stub cached_100 ''BTC_USDT'' sends_ok) = 1"
  by (simp_all add: check_trading_opportunities_def should_place_buy_order_def
        should_place_sell_order_def execute_buy_order_def execute_sell_order_def
        place_futures_order_eq calculate_spread_percentage_def stop_trading_def
        cached_100_fields sends_ok_def Let_def)

theorem trade_count_history_witness:
  "0 \<le> cfg_max_trades demo_config \<and>
   (let s = session hmac_stub demo_config 1700000000 None
              [Ticker_Message (Single (ticker_of 100 Absent Absent, sends_ok))]
    in trade_count s = 1 \<and> length (completed_trades s) = 1 \<and> max_trades s = 1 \<and>
       trade_count s \<le> max_trades s) \<and>
   fst (execute_sell_order hmac_stub (holding_with_bid (9995 / 100)) ''BTC_USDT'' sends_ok) \<and>
   trade_count
     (snd (execute_sell_order hmac_stub (holding_with_bid (9995 / 100)) ''BTC_USDT'' sends_ok)) =
     trade_count (holding_with_bid (9995 / 100)) + 1"
proof -
  let ?evs = "[Ticker_Message (Single (ticker_of 100 Absent Absent, sends_ok))]"
  let ?h = "holding_with_bid (9995 / 100)"
  have h: "0 \<le> cfg_max_trades demo_config" by (simp add: demo_config_def)
  have sold: "fst (execute_sell_order hmac_stub ?h ''BTC_USDT'' sends_ok)"
    by (simp add: execute_sell_order_def place_futures_order_eq holding_fields
        after_buy_fields sends_ok_def Let_def)
  note t = trade_count_history [of demo_config hmac_stub 1700000000 None ?evs ?h
      "''BTC_USDT''" sends_ok]
  have le: "trade_count (session hmac_stub demo_config 1700000000 None ?evs)
      \<le> max_trades (session hmac_stub demo_config 1700000000 None ?evs)"
    using t [THEN conjunct2, THEN conjunct2, THEN conjunct1, THEN mp, OF h, THEN conjunct2] .
  have inc: "trade_count (snd (execute_sell_order hmac_stub ?h ''BTC_USDT'' sends_ok)) =
     trade_count ?h + 1"
    using t [THEN conjunct2, THEN conjunct2, THEN conjunct2, THEN conjunct1] sold
    by (cases "execute_sell_order hmac_stub ?h ''BTC_USDT'' sends_ok") simp
  show ?thesis
    using h sold le inc
    by (simp add: one_trade_session one_trade_fields Let_def)
qed

subsection \<open>Well-formed positions\<close>

lemma positions_check:
  fixes H s c e A
  assumes inv: "trade_amount s = A \<and>
      (\<forall>c p. current_position s c = Some p \<longrightarrow> 0 < entry_price p \<and> size_pos p = A)"
  defines "s' \<equiv> check_trading_opportunities H s c e"
  shows "trade_amount s' = A \<and>
      (\<forall>c p. current_position s' c = Some p \<longrightarrow> 0 < entry_price p \<and> size_pos p = A)"
proof (cases "is_running s")
  case False
  then show ?thesis using inv by (simp add: s'_def check_trading_opportunities_stopped)
next
  case True
  note eff = check_trading_opportunities_effect [OF True, of H c e, folded s'_def]
  then have "current_position s' = current_position s \<or>
     (\<exists>x. 0 < x \<and> current_position s' = (current_position s)(c \<mapsto>
              \<lparr> size_pos = trade_amount s, entry_price = x, entry_time = now e \<rparr>)) \<or>
     current_position s' = (current_position s)(c := None)"
    by blast
  moreover have "trade_amount s' = A" using eff inv by simp
  ultimately show ?thesis using inv by (auto split: if_splits)
qed

lemma positions_step:
  assumes "trade_amount s = A \<and>
      (\<forall>c p. current_position s c = Some p \<longrightarrow> 0 < entry_price p \<and> size_pos p = A)"
  shows "trade_amount (step H s ev) = A \<and>
      (\<forall>c p. current_position (step H s ev) c = Some p \<longrightarrow> 0 < entry_price p \<and> size_pos p = A)"
proof -
  let ?P = "\<lambda>s. trade_amount s = A \<and>
      (\<forall>c p. current_position s c = Some p \<longrightarrow> 0 < entry_price p \<and> size_pos p = A)"
  show ?thesis
  proof (rule step_invariant [where P = ?P])
    show "?P s1" if "?P s0" "cache_ticker s0 c m = Some s1" for s0 c m s1
      using that(1) unfolding cache_ticker_fields [OF that(2)] .
    show "?P (check_trading_opportunities H s0 c e)" if "?P s0" for s0 c e
      using positions_check [OF that] .
    show "?P (stop_trading s0)" if "?P s0" for s0
      using that by (simp add: stop_trading_fields)
    show "?P (on_close s0)" if "?P s0" for s0
      using that by (simp add: on_close_fields)
    show "?P s" by (rule assms)
  qed
qed

lemma positions_run:
  assumes "trade_amount s = A \<and>
      (\<forall>c p. current_position s c = Some p \<longrightarrow> 0 < entry_price p \<and> size_pos p = A)"
  shows "trade_amount (run H s evs) = A \<and>
      (\<forall>c p. current_position (run H s evs) c = Some p \<longrightarrow> 0 < entry_price p \<and> size_pos p = A)"
  using assms unfolding run_def
proof (induction evs arbitrary: s)
  case Nil
  then show ?case by simp
next
  case (Cons ev evs)
  show ?case using Cons.IH [OF positions_step [OF Cons.prems]] by simp
qed

text \<open>
  Claim C10: every position in the position map has a positive entry price and the
  configured trade amount as its size. This holds in every state of a session (first
  conjunct) and is kept by every event from any state where it holds (second conjunct);
  a buy whose cached \<open>last\<close> price is not positive returns \<open>False\<close> and records nothing
  (third conjunct).
\<close>

theorem positions_well_formed:
  "(current_position (session H cfg clk fail_at evs) c = Some p \<longrightarrow>
      0 < entry_price p \<and> size_pos p = cfg_amount cfg) \<and>
   ((\<forall>c p. current_position s c = Some p \<longrightarrow> 0 < entry_price p \<and> size_pos p = trade_amount s) \<longrightarrow>
    trade_amount (step H s ev) = trade_amount s \<and>
    (\<forall>c p. current_position (step H s ev) c = Some p \<longrightarrow>
       0 < entry_price p \<and> size_pos p = trade_amount s)) \<and>
   (tickers s c = Some t \<and> last_tk t \<le> 0 \<longrightarrow>
      \<not> fst (execute_buy_order H s c e) \<and>
      current_position (snd (execute_buy_order H s c e)) = current_position s)"
proof (intro conjI impI)
  assume "current_position (session H cfg clk fail_at evs) c = Some p"
  then show "0 < entry_price p" "size_pos p = cfg_amount cfg"
    using positions_run [of "on_open H (init cfg) clk fail_at" "cfg_amount cfg" H evs]
    by (simp_all add: session_def on_open_fields init_fields)
next
  assume a: "\<forall>c p. current_position s c = Some p \<longrightarrow> 0 < entry_price p \<and> size_pos p = trade_amount s"
  show "trade_amount (step H s ev) = trade_amount s"
    using positions_step [of s "trade_amount s" H ev] a by simp
  show "\<forall>c p. current_position (step H s ev) c = Some p \<longrightarrow>
       0 < entry_price p \<and> size_pos p = trade_amount s"
    using positions_step [of s "trade_amount s" H ev] a by simp
next
  assume a: "tickers s c = Some t \<and> last_tk t \<le> 0"
  show "\<not> fst (execute_buy_order H s c e)"
    using a by (simp add: execute_buy_order_def place_futures_order_eq Let_def)
  show "current_position (snd (execute_buy_order H s c e)) = current_position s"
    using a by (simp add: execute_buy_order_def place_futures_order_eq Let_def)
qed

lemma cache_last_0:
  "cache_ticker opened ''BTC_USDT'' (ticker_of 0 Absent (Num 5)) = Some cached_last_0"
  by (simp add: cached_last_0_def cache_ticker_def parse_decimal_def ticker_of_def)

lemma cached_last_0_fields:
  "current_position cached_last_0 = Map.empty"
  "tickers cached_last_0 ''BTC_USDT'' =
     Some \<lparr> last_tk = 0, bid = 0, ask = 5, volume = 0, change_24h = 0, mark_price = 0,
            index_price = 0 \<rparr>"
  "trade_count cached_last_0 = 0" "max_trades cached_last_0 = 1"
  using cache_ticker_fields [OF cache_last_0]
  by (simp_all add: opened_fields cached_last_0_def cache_ticker_def parse_decimal_def
      ticker_of_def)

theorem positions_well_formed_witness:
  "current_position after_buy ''BTC_USDT'' =
     Some \<lparr>size_pos = 1, entry_price = 100, entry_time = 1700000000\<rparr> \<and>
   cfg_amount demo_config = 1 \<and>
   trade_amount
     (step hmac_stub after_buy
        (Ticker_Message (Single (ticker_of 90 (Num 90) Absent, sends_ok)))) = 1 \<and>
   current_position
     (step hmac_stub after_buy
        (Ticker_Message (Single (ticker_of 90 (Num 90) Absent, sends_ok)))) ''BTC_USDT'' =
     Some \<lparr>size_pos = 1, entry_price = 100, entry_time = 1700000000\<rparr> \<and>
   fst (should_place_buy_order cached_last_0 ''BTC_USDT'') \<and>
   \<not> fst (execute_buy_order hmac_stub cached_last_0 ''BTC_USDT'' sends_ok) \<and>
   current_position (snd (execute_buy_order hmac_stub cached_last_0 ''BTC_USDT'' sends_ok)) =
     current_position cached_last_0"
proof -
  let ?p = "\<lparr>size_pos = 1, entry_price = 100, entry_time = 1700000000\<rparr>"
  let ?t0 = "\<lparr> last_tk = 0, bid = 0, ask = 5, volume = 0, change_24h = 0, mark_price = 0,
            index_price = 0 \<rparr>"
  let ?ev = "Ticker_Message (Single (ticker_of 90 (Num 90) Absent, sends_ok))"
  have h1: "current_position
              (session hmac_stub demo_config 1700000000 None
                 [Ticker_Message (Single (ticker_of 100 (Num 90) Absent, sends_ok))])
              ''BTC_USDT'' = Some ?p"
    by (simp add: after_buy_def [symmetric] after_buy_fields)
  have h2: "\<forall>c p. current_position after_buy c = Some p \<longrightarrow>
              0 < entry_price p \<and> size_pos p = trade_amount after_buy"
    by (auto simp: after_buy_fields split: if_splits)
  have h3: "tickers cached_last_0 ''BTC_USDT'' = Some ?t0 \<and> last_tk ?t0 \<le> 0"
    by (simp add: cached_last_0_fields)
  have stay: "current_position (step hmac_stub after_buy ?ev) ''BTC_USDT'' = Some ?p"
    by (simp add: on_ticker_message_def ticker_of_fields after_buy_fields cache_holding
        holding_fields holding_more_fields check_trading_opportunities_def
        should_place_buy_order_def should_place_sell_order_def
        calculate_spread_percentage_def Let_def)
  have buy: "fst (should_place_buy_order cached_last_0 ''BTC_USDT'')"
    by (simp add: should_place_buy_order_def cached_last_0_fields)
  note t = positions_well_formed [of hmac_stub demo_config 1700000000 None
      "[Ticker_Message (Single (ticker_of 100 (Num 90) Absent, sends_ok))]" "''BTC_USDT''" ?p
      after_buy ?ev ?t0 sends_ok]
  have c1: "size_pos ?p = cfg_amount demo_config"
    using t [THEN conjunct1, THEN mp, OF h1, THEN conjunct2] .
  have c2: "trade_amount (step hmac_stub after_buy ?ev) = trade_amount after_buy"
    using t [THEN conjunct2, THEN conjunct1, THEN mp, OF h2, THEN conjunct1] .
  have c3: "\<not> fst (execute_buy_order hmac_stub cached_last_0 ''BTC_USDT'' sends_ok) \<and>
      current_position (snd (execute_buy_order hmac_stub cached_last_0 ''BTC_USDT'' sends_ok)) =
        current_position cached_last_0"
    using positions_well_formed [of hmac_stub demo_config 1700000000 None
      "[Ticker_Message (Single (ticker_of 100 (Num 90) Absent, sends_ok))]" "''BTC_USDT''" ?p
      cached_last_0 ?ev ?t0 sends_ok, THEN conjunct2, THEN conjunct2, THEN mp, OF h3] .
  have c1': "cfg_amount demo_config = 1" using c1 by simp
  show ?thesis
    using stay buy c1' c2 c3 by (simp add: after_buy_fields)
qed

subsection \<open>No second entry\<close>

lemma open_orders_append: "open_orders c (xs @ ys) = open_orders c xs @ open_orders c ys"
  by (simp add: open_orders_def)

lemma execute_sell_order_open_orders:
  "open_orders c' (sent (snd (execute_sell_order H s c e))) = open_orders c' (sent s)"
  by (simp add: execute_sell_order_def place_futures_order_eq Let_def open_orders_append
      open_orders_def request_data_def split: option.splits)

lemma execute_buy_order_open_orders:
  "c' \<noteq> c \<Longrightarrow> open_orders c' (sent (snd (execute_buy_order H s c e))) = open_orders c' (sent s)"
  by (simp add: execute_buy_order_def place_futures_order_eq Let_def open_orders_append
      open_orders_def request_data_def split: option.splits)

lemma check_trading_opportunities_open_orders:
  assumes "c' \<noteq> c \<or> \<not> fst (should_place_buy_order s c)"
  shows "open_orders c' (sent (check_trading_opportunities H s c e)) = open_orders c' (sent s)"
proof -
  define s1 where "s1 = (if fst (should_place_buy_order s c)
                   then snd (execute_buy_order H s c e) else s)"
  have b: "open_orders c' (sent s1) = open_orders c' (sent s)"
    using assms by (auto simp: s1_def execute_buy_order_open_orders)
  have "open_orders c' (sent (check_trading_opportunities H s c e)) = open_orders c' (sent s1)"
    using execute_sell_order_open_orders [of c' H s1 c e]
    by (cases "execute_sell_order H s1 c e")
       (simp add: check_trading_opportunities_def s1_def [symmetric] Let_def stop_trading_fields b)
  then show ?thesis using b by simp
qed

lemma check_trading_opportunities_other_position:
  "c' \<noteq> c \<Longrightarrow>
     current_position (check_trading_opportunities H s c e) c' = current_position s c'"
  using check_trading_opportunities_effect [of s H c e]
    check_trading_opportunities_stopped [of s H c e]
  by (cases "is_running s") auto

text \<open>
  Claim C2: the position map has one entry per contract, so a contract never has two
  positions at once; what the claim adds is that an open position (an entry of positive
  size) is never entered again. For every state in which a contract has an open position
  \<open>p\<close>: the buy decision for it is negative with the reason "already holding", and after
  processing any ticker object (cache update, decision, order and ledger update) the
  contract still has the position \<open>p\<close> or none at all, and no opening order for it was
  sent. Since the state is arbitrary, this holds after every sequence of such steps.
\<close>

theorem no_double_entry:
  assumes "current_position s c = Some p" and "0 < size_pos p"
  shows "should_place_buy_order s c = (False, Already_Holding) \<and>
         (let s' = on_ticker_message H s (Single (m, e))
          in (current_position s' c = Some p \<or> current_position s' c = None) \<and>
             open_orders c (sent s') = open_orders c (sent s))"
proof -
  have nb: "should_place_buy_order s0 c = (False, Already_Holding)"
    if "current_position s0 c = Some p" for s0
    using that assms(2) by (simp add: should_place_buy_order_def)
  have main: "(current_position (check_trading_opportunities H s1 c2 e) c = Some p \<or>
               current_position (check_trading_opportunities H s1 c2 e) c = None) \<and>
              open_orders c (sent (check_trading_opportunities H s1 c2 e)) = open_orders c (sent s)"
    if c: "cache_ticker s c2 m = Some s1" for c2 s1
  proof -
    have p1: "current_position s1 c = Some p" and s1: "sent s1 = sent s"
      using cache_ticker_fields [OF c] assms(1) by simp_all
    show ?thesis
    proof (cases "c2 = c")
      case False
      then show ?thesis
        using check_trading_opportunities_other_position [of c c2 H s1 e]
          check_trading_opportunities_open_orders [of c c2 s1 H e] p1 s1 by simp
    next
      case True
      have oo: "open_orders c (sent (check_trading_opportunities H s1 c e)) = open_orders c (sent s)"
        using check_trading_opportunities_open_orders [of c c s1 H e] nb [OF p1] s1 by simp
      have "current_position (check_trading_opportunities H s1 c e) c = Some p \<or>
            current_position (check_trading_opportunities H s1 c e) c = None"
      proof (cases "is_running s1")
        case False
        then show ?thesis using p1 by (simp add: check_trading_opportunities_stopped)
      next
        case r: True
        show ?thesis
          using check_trading_opportunities_effect [OF r, of H c e] nb [OF p1] p1 by auto
      qed
      then show ?thesis using oo True by simp
    qed
  qed
  show ?thesis
    using nb [OF assms(1)] assms(1) main
    by (auto simp: on_ticker_message_def Let_def split: option.splits)
qed

theorem no_double_entry_witness:
  "current_position after_buy ''BTC_USDT'' =
     Some \<lparr>size_pos = 1, entry_price = 100, entry_time = 1700000000\<rparr> \<and>
   should_place_buy_order after_buy ''BTC_USDT'' = (False, Already_Holding) \<and>
   (let s' = on_ticker_message hmac_stub after_buy
               (Single (ticker_of 90 (Num 90) Absent, sends_ok))
    in current_position s' ''BTC_USDT'' =
         Some \<lparr>size_pos = 1, entry_price = 100, entry_time = 1700000000\<rparr> \<and>
       open_orders ''BTC_USDT'' (sent s') = open_orders ''BTC_USDT'' (sent after_buy)) \<and>
   (let s' = on_ticker_message hmac_stub after_buy
               (Single (ticker_of (9995 / 100) (Num (9995 / 100)) Absent, sends_ok))
    in current_position s' ''BTC_USDT'' = None \<and>
       open_orders ''BTC_USDT'' (sent s') = open_orders ''BTC_USDT'' (sent after_buy))"
proof -
  let ?p = "\<lparr>size_pos = 1, entry_price = 100, entry_time = 1700000000\<rparr>"
  have h1: "current_position after_buy ''BTC_USDT'' = Some ?p"
    by (simp add: after_buy_fields)
  have h2: "0 < size_pos ?p" by simp
  note t1 = no_double_entry [OF h1 h2, of hmac_stub "ticker_of 90 (Num 90) Absent" sends_ok]
  note t2 = no_double_entry [OF h1 h2, of hmac_stub
      "ticker_of (9995 / 100) (Num (9995 / 100)) Absent" sends_ok]
  have stay: "current_position
      (on_ticker_message hmac_stub after_buy (Single (ticker_of 90 (Num 90) Absent, sends_ok)))
      ''BTC_USDT'' = Some ?p"
    by (simp add: on_ticker_message_def ticker_of_fields after_buy_fields cache_holding
        holding_fields holding_more_fields check_trading_opportunities_def
        should_place_buy_order_def should_place_sell_order_def
        calculate_spread_percentage_def Let_def)
  have gone: "current_position
      (on_ticker_message hmac_stub after_buy
         (Single (ticker_of (9995 / 100) (Num (9995 / 100)) Absent, sends_ok)))
      ''BTC_USDT'' = None"
    by (simp add: on_ticker_message_def ticker_of_fields
        after_buy_fields cache_holding holding_fields holding_more_fields
        check_trading_opportunities_def should_place_buy_order_def
        should_place_sell_order_def execute_sell_order_def
        place_futures_order_eq calculate_spread_percentage_def stop_trading_def
        sends_ok_def Let_def)
  show ?thesis
    using h1 t1 [THEN conjunct1] t1 [THEN conjunct2] t2 [THEN conjunct2] stay gone
    by (simp add: Let_def)
qed

end
